theory Spec2Isabelle
  imports Complex_Main
begin

section \<open>Validator\<close>

text \<open>
  The validation utilities of \<^verbatim>\<open>class Validator\<close>. Python strings are modelled as
  \<^typ>\<open>string\<close>; the character class \<^verbatim>\<open>[^0-9]\<close> of the regular expression keeps
  exactly the ASCII digits, whose codes are 48 to 57.
\<close>

definition is_ascii_digit :: "char \<Rightarrow> bool" where
  "is_ascii_digit c = (48 \<le> (of_char c :: nat) \<and> (of_char c :: nat) \<le> 57)"

text \<open>\<^verbatim>\<open>re.sub(r'[^0-9]', '', cpf)\<close>: every character that is not a digit is deleted.\<close>

definition strip_non_digits :: "string \<Rightarrow> string" where
  "strip_non_digits s = filter is_ascii_digit s"

text \<open>\<^verbatim>\<open>int(cpf[i])\<close> on one digit character.\<close>

definition int_of_digit :: "char \<Rightarrow> int" where
  "int_of_digit c = int (of_char c) - 48"

text \<open>
  \<^verbatim>\<open>Validator.validate_cpf\<close>. The test \<^verbatim>\<open>cpf == cpf[0] * 11\<close> is only reached when
  the length is 11, by the short circuit of \<^verbatim>\<open>or\<close>.
\<close>

definition validate_cpf :: "string \<Rightarrow> bool" where
  "validate_cpf cpf0 =
     (let cpf = strip_non_digits cpf0 in
      if length cpf \<noteq> 11 \<or> cpf = replicate 11 (cpf ! 0) then False
      else
        let sum_val = (\<Sum>i\<leftarrow>[0..<9]. int_of_digit (cpf ! i) * (10 - int i));
            digit1 = (sum_val * 10 mod 11) mod 10
        in if int_of_digit (cpf ! 9) \<noteq> digit1 then False
           else
             let sum_val = (\<Sum>i\<leftarrow>[0..<10]. int_of_digit (cpf ! i) * (11 - int i));
                 digit2 = (sum_val * 10 mod 11) mod 10
             in int_of_digit (cpf ! 10) = digit2)"

text \<open>
  A Python float is modelled by the real number it denotes. The two range checks only
  compare it with 0 and 100, and the enrollment manager only stores it and compares it with
  100; no arithmetic is done on it.
\<close>

definition validate_grade :: "real \<Rightarrow> bool" where
  "validate_grade grade = (0 \<le> grade \<and> grade \<le> 100)"

definition validate_progress :: "real \<Rightarrow> bool" where
  "validate_progress progress = (0 \<le> progress \<and> progress \<le> 100)"

text \<open>
  The checksum as the specification words it: the digits before the check digit are
  multiplied by descending weights ending in 2, the products are summed, and the check
  digit is \<open>(sum * 10 mod 11) mod 10\<close>.
\<close>

definition spec_check_digit :: "int list \<Rightarrow> int list \<Rightarrow> int" where
  "spec_check_digit weights ds = (sum_list (map2 (*) weights ds) * 10 mod 11) mod 10"

definition cpf_digits :: "string \<Rightarrow> int list" where
  "cpf_digits s = map int_of_digit (strip_non_digits s)"

section \<open>Data model\<close>

text \<open>
  The rows of the tables created by \<^verbatim>\<open>DatabaseManager.initialize_database\<close>, one record
  per table, with the columns of the schema except the bookkeeping columns
  \<^verbatim>\<open>created_at\<close>, \<open>updated_at\<close>, \<open>recorded_at\<close> and \<open>timestamp\<close>, which no query of the program
  reads in a condition. Nullable columns are options. A date column holds the clock reading
  (seconds) whose ISO text the program stores. Status columns are text, as in the schema.
\<close>

type_synonym instant = int

record student =
  s_id :: int
  s_name :: string
  s_email :: string
  s_phone :: "string option"
  s_cpf :: "string option"
  s_birth_date :: "string option"
  s_registration_date :: instant
  s_status :: string
  s_notes :: "string option"

record course =
  c_id :: int
  c_title :: string
  c_description :: string
  c_duration_hours :: int
  c_category :: string
  c_instructor :: string
  c_prerequisites :: "string option"
  c_max_students :: int
  c_price :: real
  c_created_date :: instant
  c_is_active :: bool

record enrollment =
  e_id :: int
  e_student_id :: int
  e_course_id :: int
  e_enrollment_date :: instant
  e_start_date :: "instant option"
  e_completion_date :: "instant option"
  e_expected_completion :: "instant option"
  e_progress :: real
  e_status :: string
  e_grade :: "real option"
  e_attendance_percentage :: real
  e_feedback :: "string option"

record certification =
  cert_id :: int
  cert_enrollment_id :: int
  certificate_number :: string
  issue_date :: instant
  expiry_date :: "instant option"
  verification_code :: string
  certificate_url :: "string option"
  issued_by :: "string option"

text \<open>The detail texts of the activity log are f-strings; each is kept with its arguments.\<close>

datatype log_details =
    StudentEnrolledInCourse int int
  | ProgressIs real
  | CertificateIssuedFor string int

record activity_log =
  log_id :: int
  user_type :: string
  user_id :: int
  action :: string
  details :: log_details

record database =
  students :: "student list"
  courses :: "course list"
  enrollments :: "enrollment list"
  certifications :: "certification list"
  activity_logs :: "activity_log list"

text \<open>The values of \<^verbatim>\<open>EnrollmentStatus\<close>.\<close>

definition ENROLLED :: string where "ENROLLED = ''enrolled''"
definition IN_PROGRESS :: string where "IN_PROGRESS = ''in_progress''"
definition COMPLETED :: string where "COMPLETED = ''completed''"
definition DROPPED :: string where "DROPPED = ''dropped''"
definition FAILED :: string where "FAILED = ''failed''"

section \<open>Database manager\<close>

text \<open>
  \<^verbatim>\<open>execute_query\<close> catches every \<^verbatim>\<open>sqlite3.Error\<close>, prints it and returns \<^verbatim>\<open>None\<close>.
  The statements the managers send are modelled one by one; a statement that violates a
  \<^verbatim>\<open>UNIQUE\<close> constraint of the schema yields the error and leaves the store as it was.
  What the program prints is kept as a list of messages, since the printed line is the only
  place where the kind of a failure shows.
\<close>

datatype sqlite_error = IntegrityError string

datatype message =
    DatabaseError sqlite_error
  | NoSeatsAvailable
  | EnrolledSuccessfully int
  | InvalidProgressValue
  | ProgressUpdatedTo real
  | EnrollmentNotCompletedOrNotFound
  | CertificateGenerated string

record 'a outcome =
  returned :: 'a
  printed :: "message list"
  store :: database

text \<open>
  \<^verbatim>\<open>INTEGER PRIMARY KEY AUTOINCREMENT\<close>: the program never deletes a row and never
  inserts an explicit id, so the next id is one more than the largest id of the table.
\<close>

definition next_id :: "int list \<Rightarrow> int" where
  "next_id ids = fold max ids 0 + 1"

definition log_activity :: "string \<Rightarrow> int \<Rightarrow> string \<Rightarrow> log_details \<Rightarrow> database \<Rightarrow> database" where
  "log_activity utype uid act det db =
     db\<lparr>activity_logs := activity_logs db @
        [\<lparr>log_id = next_id (map log_id (activity_logs db)), user_type = utype,
          user_id = uid, action = act, details = det\<rparr>]\<rparr>"

text \<open>
  \<^verbatim>\<open>INSERT INTO enrollments (student_id, course_id, enrollment_date, expected_completion,
  status)\<close>, under \<^verbatim>\<open>UNIQUE(student_id, course_id)\<close>; the other columns take the defaults
  of the schema. Foreign keys are declared but SQLite enforces them only after
  \<^verbatim>\<open>PRAGMA foreign_keys = ON\<close>, which the program never issues.
\<close>

definition insert_enrollment ::
  "int \<Rightarrow> int \<Rightarrow> instant \<Rightarrow> instant \<Rightarrow> string \<Rightarrow> database \<Rightarrow> sqlite_error + int \<times> database" where
  "insert_enrollment sid cid edate expected st db =
     (if \<exists>e \<in> set (enrollments db). e_student_id e = sid \<and> e_course_id e = cid
      then Inl (IntegrityError ''UNIQUE constraint failed: enrollments.student_id, enrollments.course_id'')
      else
        let new_id = next_id (map e_id (enrollments db)) in
        Inr (new_id,
             db\<lparr>enrollments := enrollments db @
               [\<lparr>e_id = new_id, e_student_id = sid, e_course_id = cid,
                 e_enrollment_date = edate, e_start_date = None, e_completion_date = None,
                 e_expected_completion = Some expected, e_progress = 0, e_status = st,
                 e_grade = None, e_attendance_percentage = 0, e_feedback = None\<rparr>]\<rparr>))"

text \<open>
  \<^verbatim>\<open>UPDATE enrollments SET progress = ?, status = ? WHERE id = ?\<close>; the first component
  is \<^verbatim>\<open>cursor.rowcount\<close>.
\<close>

definition update_enrollment :: "real \<Rightarrow> string \<Rightarrow> int \<Rightarrow> database \<Rightarrow> nat \<times> database" where
  "update_enrollment progress st eid db =
     (length (filter (\<lambda>e. e_id e = eid) (enrollments db)),
      db\<lparr>enrollments :=
           map (\<lambda>e. if e_id e = eid then e\<lparr>e_progress := progress, e_status := st\<rparr> else e)
               (enrollments db)\<rparr>)"

text \<open>
  \<^verbatim>\<open>INSERT INTO certifications (enrollment_id, certificate_number, issue_date,
  verification_code, issued_by)\<close>, under the two \<^verbatim>\<open>UNIQUE\<close> column constraints. When
  both values are taken, the error that SQLite reports names the verification code.
\<close>

definition insert_certification ::
  "int \<Rightarrow> string \<Rightarrow> instant \<Rightarrow> string \<Rightarrow> string \<Rightarrow> database \<Rightarrow> sqlite_error + int \<times> database" where
  "insert_certification eid cert_number idate verify_code issuer db =
     (if \<exists>c \<in> set (certifications db). verification_code c = verify_code
      then Inl (IntegrityError ''UNIQUE constraint failed: certifications.verification_code'')
      else if \<exists>c \<in> set (certifications db). certificate_number c = cert_number
      then Inl (IntegrityError ''UNIQUE constraint failed: certifications.certificate_number'')
      else
        let new_id = next_id (map cert_id (certifications db)) in
        Inr (new_id,
             db\<lparr>certifications := certifications db @
               [\<lparr>cert_id = new_id, cert_enrollment_id = eid, certificate_number = cert_number,
                 issue_date = idate, expiry_date = None, verification_code = verify_code,
                 certificate_url = None, issued_by = Some issuer\<rparr>]\<rparr>))"

section \<open>Course manager\<close>

text \<open>\<^verbatim>\<open>CourseManager.get_course\<close>: \<^verbatim>\<open>SELECT * FROM courses WHERE id = ?\<close>, first row.\<close>

definition get_course :: "int \<Rightarrow> database \<Rightarrow> course option" where
  "get_course course_id db = find (\<lambda>c. c_id c = course_id) (courses db)"

text \<open>
  The count of \<^verbatim>\<open>get_available_seats\<close>: \<^verbatim>\<open>SELECT COUNT(*) FROM enrollments WHERE
  course_id = ? AND status IN ('enrolled', 'in_progress')\<close>.
\<close>

definition count_active :: "int \<Rightarrow> database \<Rightarrow> int" where
  "count_active course_id db =
     int (length (filter (\<lambda>e. e_course_id e = course_id \<and> e_status e \<in> set [''enrolled'', ''in_progress''])
                         (enrollments db)))"

definition get_available_seats :: "int \<Rightarrow> database \<Rightarrow> int" where
  "get_available_seats course_id db =
     (case get_course course_id db of
        None \<Rightarrow> 0
      | Some course \<Rightarrow>
          let enrolled = count_active course_id db in
          max 0 (c_max_students course - enrolled))"

section \<open>Enrollment manager\<close>

text \<open>
  \<^verbatim>\<open>EnrollmentManager.enroll_student\<close>. The two arguments \<open>now1\<close> and \<open>now2\<close> are the two
  readings of \<^verbatim>\<open>datetime.now()\<close>; \<^verbatim>\<open>timedelta(days=90)\<close> is 90 days of 86400 seconds.
\<close>

definition enroll_student :: "instant \<Rightarrow> instant \<Rightarrow> int \<Rightarrow> int \<Rightarrow> database \<Rightarrow> int option outcome" where
  "enroll_student now1 now2 student_id course_id db =
     (let available_seats = get_available_seats course_id db in
      if available_seats \<le> 0
      then \<lparr>returned = None, printed = [NoSeatsAvailable], store = db\<rparr>
      else
        let expected = now2 + 90 * 86400 in
        case insert_enrollment student_id course_id now1 expected ENROLLED db of
          Inl err \<Rightarrow> \<lparr>returned = None, printed = [DatabaseError err], store = db\<rparr>
        | Inr (enrollment_id, db') \<Rightarrow>
            \<lparr>returned = Some enrollment_id,
             printed = [EnrolledSuccessfully enrollment_id],
             store = log_activity ''enrollment'' enrollment_id ''CREATED''
                       (StudentEnrolledInCourse student_id course_id) db'\<rparr>)"

text \<open>\<^verbatim>\<open>EnrollmentManager.update_progress\<close>.\<close>

definition update_progress :: "int \<Rightarrow> real \<Rightarrow> database \<Rightarrow> bool outcome" where
  "update_progress enrollment_id progress db =
     (if \<not> validate_progress progress
      then \<lparr>returned = False, printed = [InvalidProgressValue], store = db\<rparr>
      else
        let status = (if progress \<ge> 100 then COMPLETED else IN_PROGRESS) in
        case update_enrollment progress status enrollment_id db of
          (rowcount, db') \<Rightarrow>
            if rowcount > 0
            then \<lparr>returned = True, printed = [ProgressUpdatedTo progress],
                  store = log_activity ''enrollment'' enrollment_id ''PROGRESS_UPDATED''
                            (ProgressIs progress) db'\<rparr>
            else \<lparr>returned = False, printed = [], store = db'\<rparr>)"

section \<open>Certification manager\<close>

text \<open>Python's \<^verbatim>\<open>str\<close> of an integer, as the f-string of the certificate number formats it.\<close>

fun str_nat :: "nat \<Rightarrow> string" where
  "str_nat n = (if n < 10 then [char_of (48 + n)] else str_nat (n div 10) @ [char_of (48 + n mod 10)])"

declare str_nat.simps [simp del]

definition str_int :: "int \<Rightarrow> string" where
  "str_int i = (if i < 0 then CHR ''-'' # str_nat (nat (- i)) else str_nat (nat i))"

text \<open>\<^verbatim>\<open>str.upper\<close> on ASCII text, which is what \<^verbatim>\<open>secrets.token_hex\<close> returns.\<close>

definition upper_char :: "char \<Rightarrow> char" where
  "upper_char c = (let n = (of_char c :: nat) in if 97 \<le> n \<and> n \<le> 122 then char_of (n - 32) else c)"

definition upper :: "string \<Rightarrow> string" where
  "upper s = map upper_char s"

text \<open>The f-string \<^verbatim>\<open>f"CERT-{enrollment_id}-{timestamp}"\<close>.\<close>

definition format_cert_number :: "int \<Rightarrow> string \<Rightarrow> string" where
  "format_cert_number enrollment_id timestamp = ''CERT-'' @ str_int enrollment_id @ ''-'' @ timestamp"

text \<open>
  \<^verbatim>\<open>CertificationManager.generate_certificate\<close>. The environment is passed in: \<open>timestamp\<close>
  is the text of \<^verbatim>\<open>datetime.now().strftime("%Y%m%d%H%M%S")\<close>, \<open>token_hex\<close> the text returned
  by the single call \<^verbatim>\<open>secrets.token_hex(8)\<close>, and \<open>now\<close> the second clock reading.
\<close>

definition generate_certificate ::
  "string \<Rightarrow> string \<Rightarrow> instant \<Rightarrow> int \<Rightarrow> string \<Rightarrow> database \<Rightarrow> string option outcome" where
  "generate_certificate timestamp token_hex now enrollment_id issuer db =
     (case find (\<lambda>e. e_id e = enrollment_id \<and> e_status e = ''completed'') (enrollments db) of
        None \<Rightarrow> \<lparr>returned = None, printed = [EnrollmentNotCompletedOrNotFound], store = db\<rparr>
      | Some enrollment \<Rightarrow>
          let cert_number = format_cert_number enrollment_id timestamp;
              verify_code = upper token_hex;
              idate = now
          in case insert_certification enrollment_id cert_number idate verify_code issuer db of
               Inl err \<Rightarrow> \<lparr>returned = None, printed = [DatabaseError err], store = db\<rparr>
             | Inr (new_id, db') \<Rightarrow>
                 \<lparr>returned = Some cert_number,
                  printed = [CertificateGenerated cert_number],
                  store = log_activity ''certification'' new_id ''ISSUED''
                            (CertificateIssuedFor cert_number enrollment_id) db'\<rparr>)"

text \<open>
  \<^verbatim>\<open>CertificationManager.verify_certificate\<close>: the inner join of certifications,
  enrollments, students and courses, restricted to the verification code; \<^verbatim>\<open>fetch_one\<close>
  returns the first row of the join, or \<^verbatim>\<open>None\<close> when the join is empty.
\<close>

record certificate_details =
  certificate :: certification
  student_name :: string
  course_title :: string

definition verify_join :: "string \<Rightarrow> database \<Rightarrow> certificate_details list" where
  "verify_join code db =
     List.bind (filter (\<lambda>cert. verification_code cert = code) (certifications db)) (\<lambda>cert.
     List.bind (filter (\<lambda>e. e_id e = cert_enrollment_id cert) (enrollments db)) (\<lambda>e.
     List.bind (filter (\<lambda>s. s_id s = e_student_id e) (students db)) (\<lambda>s.
     map (\<lambda>c. \<lparr>certificate = cert, student_name = s_name s, course_title = c_title c\<rparr>)
         (filter (\<lambda>c. c_id c = e_course_id e) (courses db)))))"

definition verify_certificate :: "string \<Rightarrow> database \<Rightarrow> certificate_details option" where
  "verify_certificate code db =
     (case verify_join code db of [] \<Rightarrow> None | row # _ \<Rightarrow> Some row)"

section \<open>Properties of a store\<close>

text \<open>
  The capacity bound: for every course, the number of its enrollments whose status is
  \<open>enrolled\<close> or \<open>in_progress\<close> is at most \<open>max_students\<close>.
\<close>

definition capacity_respected :: "database \<Rightarrow> bool" where
  "capacity_respected db = (\<forall>c \<in> set (courses db). count_active (c_id c) db \<le> c_max_students c)"

text \<open>The \<^verbatim>\<open>PRIMARY KEY\<close> constraints of the three tables that the join reads.\<close>

definition primary_keys_distinct :: "database \<Rightarrow> bool" where
  "primary_keys_distinct db =
     (distinct (map s_id (students db)) \<and> distinct (map c_id (courses db))
      \<and> distinct (map e_id (enrollments db)))"

text \<open>
  The row that a successful \<open>generate_certificate\<close> appends to the certifications table.
\<close>

definition issued_certificate ::
  "string \<Rightarrow> string \<Rightarrow> instant \<Rightarrow> int \<Rightarrow> string \<Rightarrow> database \<Rightarrow> certification" where
  "issued_certificate timestamp token_hex now enrollment_id issuer db =
     \<lparr>cert_id = next_id (map cert_id (certifications db)), cert_enrollment_id = enrollment_id,
      certificate_number = format_cert_number enrollment_id timestamp, issue_date = now,
      expiry_date = None, verification_code = upper token_hex, certificate_url = None,
      issued_by = Some issuer\<rparr>"

section \<open>Example stores\<close>

definition example_student :: "int \<Rightarrow> string \<Rightarrow> string \<Rightarrow> student" where
  "example_student i n m =
     \<lparr>s_id = i, s_name = n, s_email = m, s_phone = None, s_cpf = None, s_birth_date = None,
      s_registration_date = 0, s_status = ''active'', s_notes = None\<rparr>"

definition example_course :: "int \<Rightarrow> string \<Rightarrow> int \<Rightarrow> course" where
  "example_course i t m =
     \<lparr>c_id = i, c_title = t, c_description = [], c_duration_hours = 40, c_category = ''other'',
      c_instructor = [], c_prerequisites = None, c_max_students = m, c_price = 0,
      c_created_date = 0, c_is_active = True\<rparr>"

definition example_enrollment :: "int \<Rightarrow> int \<Rightarrow> int \<Rightarrow> real \<Rightarrow> string \<Rightarrow> real option \<Rightarrow> enrollment" where
  "example_enrollment i sid cid p st g =
     \<lparr>e_id = i, e_student_id = sid, e_course_id = cid, e_enrollment_date = 0,
      e_start_date = None, e_completion_date = None, e_expected_completion = None,
      e_progress = p, e_status = st, e_grade = g, e_attendance_percentage = 0,
      e_feedback = None\<rparr>"

text \<open>Two students, a course with a single seat and a course with thirty, nobody enrolled.\<close>

definition db_start :: database where
  "db_start =
     \<lparr>students = [example_student 1 ''Ana Souza'' ''ana@example.com'',
                  example_student 2 ''Bruno Lima'' ''bruno@example.com''],
      courses = [example_course 1 ''Python Basics'' 1, example_course 2 ''Data Analysis'' 30],
      enrollments = [], certifications = [], activity_logs = []\<rparr>"

text \<open>Student 1 takes the only seat of course 1 (enrollment 1).\<close>

definition db_full :: database where
  "db_full = store (enroll_student 100 100 1 1 db_start)"

text \<open>Student 1 is also enrolled in course 2 (enrollment 2), which keeps free seats.\<close>

definition db_two_courses :: database where
  "db_two_courses = store (enroll_student 150 150 1 2 db_full)"

text \<open>Enrollment 1 reaches 100 percent and is completed; the seat of course 1 is free again.\<close>

definition db_completed :: database where
  "db_completed = store (update_progress 1 100 db_full)"

text \<open>Student 2 takes the freed seat of course 1 (enrollment 2).\<close>

definition db_reenrolled :: database where
  "db_reenrolled = store (enroll_student 200 200 2 1 db_completed)"

text \<open>A certificate is issued for the completed enrollment 1.\<close>

definition db_certified :: database where
  "db_certified =
     store (generate_certificate ''20260128120000'' ''0123456789abcdef'' 500 1 ''Training System'' db_completed)"

text \<open>
  An enrollment for the student id 99, of which the students table has no row, in course 2
  (enrollment 2), brought to 100 percent.
\<close>

definition db_unknown_student :: database where
  "db_unknown_student =
     store (update_progress 2 100 (store (enroll_student 300 300 99 2 db_completed)))"

section \<open>The checksum of the national id\<close>

lemma upt_9: "[0..<9] = [0, 1, 2, 3, 4, 5, 6, 7, 8]"
  by (simp add: upt_rec)

lemma upt_10: "[0..<10] = [0, 1, 2, 3, 4, 5, 6, 7, 8, 9]"
  by (simp add: upt_rec)

lemma upt_11: "[0..<11] = [0, 1, 2, 3, 4, 5, 6, 7, 8, 9, 10]"
  by (simp add: upt_rec)

lemma eleven_elements:
  assumes "length xs = 11"
  shows "\<exists>a0 a1 a2 a3 a4 a5 a6 a7 a8 a9 a10. xs = [a0, a1, a2, a3, a4, a5, a6, a7, a8, a9, a10]"
proof -
  have "xs = map ((!) xs) [0..<11]"
    using assms map_nth [of xs] by simp
  also have "\<dots> = [xs ! 0, xs ! 1, xs ! 2, xs ! 3, xs ! 4, xs ! 5, xs ! 6, xs ! 7, xs ! 8, xs ! 9, xs ! 10]"
    unfolding upt_11 by simp
  finally have e: "xs = [xs ! 0, xs ! 1, xs ! 2, xs ! 3, xs ! 4, xs ! 5, xs ! 6, xs ! 7, xs ! 8, xs ! 9, xs ! 10]" .
  show ?thesis
    by (intro exI, rule e)
qed


lemma validate_cpf_length: "validate_cpf s \<Longrightarrow> length (strip_non_digits s) = 11"
  by (simp add: validate_cpf_def Let_def split: if_splits)

lemma validate_cpf_check_digits:
  assumes "validate_cpf s"
  shows "int_of_digit (strip_non_digits s ! 9)
           = ((\<Sum>i\<leftarrow>[0..<9]. int_of_digit (strip_non_digits s ! i) * (10 - int i)) * 10 mod 11) mod 10"
    and "int_of_digit (strip_non_digits s ! 10)
           = ((\<Sum>i\<leftarrow>[0..<10]. int_of_digit (strip_non_digits s ! i) * (11 - int i)) * 10 mod 11) mod 10"
  using assms by (simp_all add: validate_cpf_def Let_def split: if_splits)

lemma validate_cpf_digits:
  assumes "validate_cpf s"
  shows "length (cpf_digits s) = 11
       \<and> cpf_digits s ! 9 = spec_check_digit [10, 9, 8, 7, 6, 5, 4, 3, 2] (take 9 (cpf_digits s))
       \<and> cpf_digits s ! 10 = spec_check_digit [11, 10, 9, 8, 7, 6, 5, 4, 3, 2] (take 10 (cpf_digits s))"
proof -
  obtain a0 a1 a2 a3 a4 a5 a6 a7 a8 a9 a10
    where d: "strip_non_digits s = [a0, a1, a2, a3, a4, a5, a6, a7, a8, a9, a10]"
    using eleven_elements [OF validate_cpf_length [OF assms]] by (elim exE) simp
  have len: "length (cpf_digits s) = 11"
    by (simp add: cpf_digits_def d)
  have first: "cpf_digits s ! 9 = spec_check_digit [10, 9, 8, 7, 6, 5, 4, 3, 2] (take 9 (cpf_digits s))"
    using validate_cpf_check_digits(1) [OF assms]
    unfolding cpf_digits_def spec_check_digit_def d upt_9 by simp
  have second: "cpf_digits s ! 10 = spec_check_digit [11, 10, 9, 8, 7, 6, 5, 4, 3, 2] (take 10 (cpf_digits s))"
    using validate_cpf_check_digits(2) [OF assms]
    unfolding cpf_digits_def spec_check_digit_def d upt_10 by simp
  from len first second show ?thesis
    by simp
qed

lemma identical_digits_rejected:
  assumes len: "length (strip_non_digits s) = 11"
    and same: "\<forall>c \<in> set (strip_non_digits s). c = hd (strip_non_digits s)"
  shows "\<not> validate_cpf s"
proof -
  obtain a0 a1 a2 a3 a4 a5 a6 a7 a8 a9 a10
    where d: "strip_non_digits s = [a0, a1, a2, a3, a4, a5, a6, a7, a8, a9, a10]"
    using eleven_elements [OF len] by (elim exE) simp
  from same have "strip_non_digits s = replicate 11 (strip_non_digits s ! 0)"
    unfolding d by (simp add: eval_nat_numeral)
  then show ?thesis
    by (simp add: validate_cpf_def Let_def)
qed

text \<open>
  Claim C9. Whenever \<open>validate_cpf\<close> accepts a text, the text has eleven digits after
  stripping, the tenth digit is the check digit recomputed from the first nine digits with the
  weights 10 down to 2, and the eleventh digit is the check digit recomputed from the first
  ten digits with the weights 11 down to 2, each as \<open>(sum * 10 mod 11) mod 10\<close>. Whenever
  the eleven stripped digits of a text are all the same, \<open>validate_cpf\<close> rejects it.
\<close>

theorem validate_cpf_checksum_roundtrip:
  "(validate_cpf s \<longrightarrow>
      length (cpf_digits s) = 11
      \<and> cpf_digits s ! 9 = spec_check_digit [10, 9, 8, 7, 6, 5, 4, 3, 2] (take 9 (cpf_digits s))
      \<and> cpf_digits s ! 10 = spec_check_digit [11, 10, 9, 8, 7, 6, 5, 4, 3, 2] (take 10 (cpf_digits s)))
   \<and> (length (strip_non_digits t) = 11 \<and> (\<forall>c \<in> set (strip_non_digits t). c = hd (strip_non_digits t))
        \<longrightarrow> \<not> validate_cpf t)"
  using validate_cpf_digits [of s] identical_digits_rejected [of t] by blast

theorem validate_cpf_checksum_roundtrip_witness:
  "validate_cpf ''529.982.247-25''
   \<and> cpf_digits ''529.982.247-25'' = [5, 2, 9, 9, 8, 2, 2, 4, 7, 2, 5]
   \<and> spec_check_digit [10, 9, 8, 7, 6, 5, 4, 3, 2] (take 9 (cpf_digits ''529.982.247-25'')) = 2
   \<and> spec_check_digit [11, 10, 9, 8, 7, 6, 5, 4, 3, 2] (take 10 (cpf_digits ''529.982.247-25'')) = 5
   \<and> strip_non_digits ''111.111.111-11'' = ''11111111111''
   \<and> \<not> validate_cpf ''111.111.111-11''"
proof -
  have valid: "validate_cpf ''529.982.247-25''"
    by code_simp
  have digits: "cpf_digits ''529.982.247-25'' = [5, 2, 9, 9, 8, 2, 2, 4, 7, 2, 5]"
    by code_simp
  have same: "length (strip_non_digits ''111.111.111-11'') = 11
               \<and> (\<forall>c \<in> set (strip_non_digits ''111.111.111-11''). c = hd (strip_non_digits ''111.111.111-11''))"
    by code_simp
  from validate_cpf_checksum_roundtrip [of "''529.982.247-25''" "''111.111.111-11''"] valid same
  have "cpf_digits ''529.982.247-25'' ! 9
          = spec_check_digit [10, 9, 8, 7, 6, 5, 4, 3, 2] (take 9 (cpf_digits ''529.982.247-25''))"
    and "cpf_digits ''529.982.247-25'' ! 10
          = spec_check_digit [11, 10, 9, 8, 7, 6, 5, 4, 3, 2] (take 10 (cpf_digits ''529.982.247-25''))"
    and "\<not> validate_cpf ''111.111.111-11''"
    by blast+
  moreover have "strip_non_digits ''111.111.111-11'' = ''11111111111''"
    by code_simp
  ultimately show ?thesis
    using valid digits by simp
qed

section \<open>Enrolling a student\<close>

lemma log_activity_tables [simp]:
  "students (log_activity u i a d db) = students db"
  "courses (log_activity u i a d db) = courses db"
  "enrollments (log_activity u i a d db) = enrollments db"
  "certifications (log_activity u i a d db) = certifications db"
  by (simp_all add: log_activity_def)

lemma count_active_log_activity [simp]:
  "count_active k (log_activity u i a d db) = count_active k db"
  by (simp add: count_active_def)

lemma update_enrollment_rowcount:
  "0 < fst (update_enrollment p st eid db) \<longleftrightarrow> (\<exists>e \<in> set (enrollments db). e_id e = eid)"
  by (simp add: update_enrollment_def filter_empty_conv)

lemma update_enrollment_no_row:
  assumes "\<forall>e \<in> set (enrollments db). e_id e \<noteq> eid"
  shows "snd (update_enrollment p st eid db) = db"
proof -
  have "map (\<lambda>e. if e_id e = eid then e\<lparr>e_progress := p, e_status := st\<rparr> else e) (enrollments db)
          = enrollments db"
    using assms by (simp add: map_idI)
  then show ?thesis
    by (simp add: update_enrollment_def)
qed

lemma update_progress_valid:
  assumes "0 \<le> p" "p \<le> 100" "e \<in> set (enrollments db)" "e_id e = eid"
  shows "returned (update_progress eid p db) = True"
    and "printed (update_progress eid p db) = [ProgressUpdatedTo p]"
    and "enrollments (store (update_progress eid p db))
           = map (\<lambda>r. if e_id r = eid
                        then r\<lparr>e_progress := p, e_status := (if p \<ge> 100 then COMPLETED else IN_PROGRESS)\<rparr>
                        else r) (enrollments db)"
proof -
  have "0 < fst (update_enrollment p (if p \<ge> 100 then COMPLETED else IN_PROGRESS) eid db)"
    using assms(3,4) update_enrollment_rowcount by blast
  then have pos: "0 < length (filter (\<lambda>e. e_id e = eid) (enrollments db))"
    by (simp add: update_enrollment_def)
  show "returned (update_progress eid p db) = True"
    using assms(1,2) pos by (simp add: update_progress_def validate_progress_def update_enrollment_def)
  show "printed (update_progress eid p db) = [ProgressUpdatedTo p]"
    using assms(1,2) pos by (simp add: update_progress_def validate_progress_def update_enrollment_def)
  show "enrollments (store (update_progress eid p db))
           = map (\<lambda>r. if e_id r = eid
                        then r\<lparr>e_progress := p, e_status := (if p \<ge> 100 then COMPLETED else IN_PROGRESS)\<rparr>
                        else r) (enrollments db)"
    using assms(1,2) pos by (simp add: update_progress_def validate_progress_def update_enrollment_def)
qed

lemma update_progress_enrollments:
  "enrollments (store (update_progress eid p db))
     = (if returned (update_progress eid p db)
        then map (\<lambda>r. if e_id r = eid
                        then r\<lparr>e_progress := p, e_status := (if p \<ge> 100 then COMPLETED else IN_PROGRESS)\<rparr>
                        else r) (enrollments db)
        else enrollments db)"
proof (cases "validate_progress p \<and> (\<exists>e \<in> set (enrollments db). e_id e = eid)")
  case True
  then show ?thesis
    using update_progress_valid(1,3) [of p _ db eid] by (auto simp: validate_progress_def)
next
  case False
  then show ?thesis
  proof (cases "validate_progress p")
    case True
    with False have none: "\<forall>e \<in> set (enrollments db). e_id e \<noteq> eid"
      by blast
    then have "filter (\<lambda>e. e_id e = eid) (enrollments db) = []"
      by (simp add: filter_empty_conv)
    with True update_enrollment_no_row [OF none] show ?thesis
      by (simp add: update_progress_def update_enrollment_def)
  next
    case False
    then show ?thesis
      by (simp add: update_progress_def)
  qed
qed

text \<open>
  Claim C2. For a course whose number of available seats, \<open>max_students\<close> minus the number
  of its enrollments of status \<open>enrolled\<close> or \<open>in_progress\<close>, is zero or negative,
  \<open>enroll_student\<close> fails: it returns \<^verbatim>\<open>None\<close>, prints that no seats are available,
  inserts no row and leaves the whole store as it was.
\<close>

theorem enroll_student_no_seats:
  assumes "get_course course_id db = Some c"
    and "c_max_students c - count_active course_id db \<le> 0"
  shows "enroll_student now1 now2 student_id course_id db
           = \<lparr>returned = None, printed = [NoSeatsAvailable], store = db\<rparr>"
  using assms by (simp add: enroll_student_def get_available_seats_def)

theorem enroll_student_no_seats_witness:
  "get_course 1 db_full = Some (example_course 1 ''Python Basics'' 1)
   \<and> c_max_students (example_course 1 ''Python Basics'' 1) - count_active 1 db_full \<le> 0
   \<and> enroll_student 200 200 2 1 db_full
        = \<lparr>returned = None, printed = [NoSeatsAvailable], store = db_full\<rparr>"
proof -
  have c: "get_course 1 db_full = Some (example_course 1 ''Python Basics'' 1)"
    by code_simp
  have full: "c_max_students (example_course 1 ''Python Basics'' 1) - count_active 1 db_full \<le> 0"
    by code_simp
  from enroll_student_no_seats [OF c full] c full show ?thesis
    by blast
qed

text \<open>
  Claim C3. When a row for the pair of student and course exists and the course still has
  available seats, \<open>enroll_student\<close> fails and creates no row: the insert violates the
  \<^verbatim>\<open>UNIQUE(student_id, course_id)\<close> constraint, the error of that constraint is printed,
  \<^verbatim>\<open>None\<close> is returned and the store is left as it was. The failure is distinct from the
  one for a full course: what is printed differs from what any \<open>enroll_student\<close> prints that
  finds no available seat.
\<close>

theorem enroll_student_duplicate:
  assumes "e \<in> set (enrollments db)" "e_student_id e = student_id" "e_course_id e = course_id"
    and "0 < get_available_seats course_id db"
  shows "enroll_student now1 now2 student_id course_id db
           = \<lparr>returned = None,
              printed = [DatabaseError (IntegrityError
                ''UNIQUE constraint failed: enrollments.student_id, enrollments.course_id'')],
              store = db\<rparr>
       \<and> printed (enroll_student now1 now2 student_id course_id db) \<noteq> [NoSeatsAvailable]
       \<and> (get_available_seats course_id' db' \<le> 0 \<longrightarrow>
            printed (enroll_student now1 now2 student_id course_id db)
              \<noteq> printed (enroll_student now1' now2' student_id' course_id' db'))"
proof -
  have "\<exists>r \<in> set (enrollments db). e_student_id r = student_id \<and> e_course_id r = course_id"
    using assms(1-3) by blast
  then have "insert_enrollment student_id course_id now1 (now2 + 90 * 86400) ENROLLED db
               = Inl (IntegrityError
                   ''UNIQUE constraint failed: enrollments.student_id, enrollments.course_id'')"
    unfolding insert_enrollment_def by (rule if_P)
  with assms(4) have out: "enroll_student now1 now2 student_id course_id db
           = \<lparr>returned = None,
              printed = [DatabaseError (IntegrityError
                ''UNIQUE constraint failed: enrollments.student_id, enrollments.course_id'')],
              store = db\<rparr>"
    by (simp add: enroll_student_def)
  have differs: "printed (enroll_student now1 now2 student_id course_id db) \<noteq> [NoSeatsAvailable]"
    unfolding out by simp
  have full: "get_available_seats course_id' db' \<le> 0 \<longrightarrow>
            printed (enroll_student now1 now2 student_id course_id db)
              \<noteq> printed (enroll_student now1' now2' student_id' course_id' db')"
  proof
    assume "get_available_seats course_id' db' \<le> 0"
    then have "printed (enroll_student now1' now2' student_id' course_id' db') = [NoSeatsAvailable]"
      by (simp add: enroll_student_def)
    with differs show "printed (enroll_student now1 now2 student_id course_id db)
              \<noteq> printed (enroll_student now1' now2' student_id' course_id' db')"
      by simp
  qed
  show ?thesis
    by (rule conjI [OF out conjI [OF differs full]])
qed

theorem enroll_student_duplicate_witness:
  "example_enrollment 2 1 2 0 ''enrolled'' None
       \<lparr>e_enrollment_date := 150, e_expected_completion := Some 7776150\<rparr> \<in> set (enrollments db_two_courses)
   \<and> 0 < get_available_seats 2 db_two_courses
   \<and> get_available_seats 1 db_two_courses \<le> 0
   \<and> enroll_student 400 400 1 2 db_two_courses
        = \<lparr>returned = None,
           printed = [DatabaseError (IntegrityError
             ''UNIQUE constraint failed: enrollments.student_id, enrollments.course_id'')],
           store = db_two_courses\<rparr>
   \<and> printed (enroll_student 400 400 2 1 db_two_courses) = [NoSeatsAvailable]
   \<and> printed (enroll_student 400 400 1 2 db_two_courses)
        \<noteq> printed (enroll_student 400 400 2 1 db_two_courses)"
proof -
  let ?e = "example_enrollment 2 1 2 0 ''enrolled'' None
              \<lparr>e_enrollment_date := 150, e_expected_completion := Some 7776150\<rparr>"
  have row: "?e \<in> set (enrollments db_two_courses)"
    by code_simp
  have ids: "e_student_id ?e = 1" "e_course_id ?e = 2"
    by (simp_all add: example_enrollment_def)
  have seats: "0 < get_available_seats 2 db_two_courses"
    by code_simp
  have none: "get_available_seats 1 db_two_courses \<le> 0"
    by code_simp
  have full: "printed (enroll_student 400 400 2 1 db_two_courses) = [NoSeatsAvailable]"
    by code_simp
  note inst = enroll_student_duplicate [OF row ids seats, of 400 400 1 db_two_courses 400 400 2]
  from inst [THEN conjunct2, THEN conjunct2] none
  have differs: "printed (enroll_student 400 400 1 2 db_two_courses)
        \<noteq> printed (enroll_student 400 400 2 1 db_two_courses)"
    by (rule mp)
  from row seats none inst [THEN conjunct1] full differs show ?thesis
    by (intro conjI)
qed

section \<open>Updating the progress\<close>

lemma updated_row:
  assumes "r \<in> set (map (\<lambda>x. if e_id x = eid then x\<lparr>e_progress := p, e_status := st\<rparr> else x) xs)"
    and "e_id r = eid"
  shows "e_progress r = p \<and> e_status r = st"
proof -
  from assms(1) obtain x
    where r: "r = (if e_id x = eid then x\<lparr>e_progress := p, e_status := st\<rparr> else x)"
    unfolding set_map by (rule imageE)
  show ?thesis
  proof (cases "e_id x = eid")
    case True
    with r show ?thesis by simp
  next
    case False
    with r assms(2) show ?thesis by simp
  qed
qed

text \<open>
  Claim C4. For an existing enrollment and a progress \<open>p\<close> with \<open>0 \<le> p \<le> 100\<close>,
  \<open>update_progress\<close> succeeds, the row of the enrollment is kept with its progress set to
  \<open>p\<close> and its status derived from \<open>p\<close>, and every row of that id then has progress \<open>p\<close> and
  the status \<open>in_progress\<close> if \<open>0 < p < 100\<close> and \<open>completed\<close> if \<open>p \<ge> 100\<close>, whatever the
  status was before.
\<close>

theorem update_progress_derives_status:
  assumes "e \<in> set (enrollments db)" "e_id e = eid" "0 \<le> p" "p \<le> 100"
  shows "returned (update_progress eid p db) = True
       \<and> e\<lparr>e_progress := p, e_status := (if p \<ge> 100 then ''completed'' else ''in_progress'')\<rparr>
            \<in> set (enrollments (store (update_progress eid p db)))
       \<and> (\<forall>r \<in> set (enrollments (store (update_progress eid p db))).
              e_id r = eid \<longrightarrow>
                e_progress r = p
                \<and> (0 < p \<and> p < 100 \<longrightarrow> e_status r = ''in_progress'')
                \<and> (p \<ge> 100 \<longrightarrow> e_status r = ''completed''))"
proof -
  let ?st = "if p \<ge> 100 then COMPLETED else IN_PROGRESS"
  let ?f = "\<lambda>r. if e_id r = eid then r\<lparr>e_progress := p, e_status := ?st\<rparr> else r"
  note rows = update_progress_valid(3) [OF assms(3,4,1,2)]
  have "?f e \<in> set (enrollments (store (update_progress eid p db)))"
    unfolding rows set_map using assms(1) by (rule imageI)
  moreover have "?f e = e\<lparr>e_progress := p, e_status := (if p \<ge> 100 then ''completed'' else ''in_progress'')\<rparr>"
    using assms(2) by (simp add: COMPLETED_def IN_PROGRESS_def)
  ultimately have mem: "e\<lparr>e_progress := p, e_status := (if p \<ge> 100 then ''completed'' else ''in_progress'')\<rparr>
            \<in> set (enrollments (store (update_progress eid p db)))"
    by simp
  have all: "\<forall>r \<in> set (enrollments (store (update_progress eid p db))).
              e_id r = eid \<longrightarrow>
                e_progress r = p
                \<and> (0 < p \<and> p < 100 \<longrightarrow> e_status r = ''in_progress'')
                \<and> (p \<ge> 100 \<longrightarrow> e_status r = ''completed'')"
  proof (intro ballI impI)
    fix r
    assume "r \<in> set (enrollments (store (update_progress eid p db)))" and "e_id r = eid"
    then have "e_progress r = p \<and> e_status r = ?st"
      unfolding rows by (rule updated_row)
    then show "e_progress r = p
                \<and> (0 < p \<and> p < 100 \<longrightarrow> e_status r = ''in_progress'')
                \<and> (p \<ge> 100 \<longrightarrow> e_status r = ''completed'')"
      by (simp add: COMPLETED_def IN_PROGRESS_def)
  qed
  show ?thesis
    by (rule conjI [OF update_progress_valid(1) [OF assms(3,4,1,2)] conjI [OF mem all]])
qed

theorem update_progress_derives_status_witness:
  "enrollments db_reenrolled ! 0 \<in> set (enrollments db_reenrolled)
   \<and> e_id (enrollments db_reenrolled ! 0) = 1
   \<and> e_status (enrollments db_reenrolled ! 0) = ''completed''
   \<and> returned (update_progress 1 50 db_reenrolled) = True
   \<and> e_progress (enrollments (store (update_progress 1 50 db_reenrolled)) ! 0) = 50
   \<and> e_status (enrollments (store (update_progress 1 50 db_reenrolled)) ! 0) = ''in_progress''"
proof -
  have row: "enrollments db_reenrolled ! 0 \<in> set (enrollments db_reenrolled)"
    by code_simp
  have ident: "e_id (enrollments db_reenrolled ! 0) = 1"
    by code_simp
  have prior: "e_status (enrollments db_reenrolled ! 0) = ''completed''"
    by code_simp
  have range: "(0::real) \<le> 50" "(50::real) \<le> 100"
    by simp_all
  have new: "enrollments (store (update_progress 1 50 db_reenrolled)) ! 0
               \<in> set (enrollments (store (update_progress 1 50 db_reenrolled)))"
    by code_simp
  have new_id: "e_id (enrollments (store (update_progress 1 50 db_reenrolled)) ! 0) = 1"
    by code_simp
  note inst = update_progress_derives_status [OF row ident range]
  from inst have ok: "returned (update_progress 1 50 db_reenrolled) = True"
    by (rule conjunct1)
  from inst [THEN conjunct2, THEN conjunct2] have "\<forall>r \<in> set (enrollments (store (update_progress 1 50 db_reenrolled))).
              e_id r = 1 \<longrightarrow>
                e_progress r = 50
                \<and> (0 < (50::real) \<and> (50::real) < 100 \<longrightarrow> e_status r = ''in_progress'')
                \<and> ((50::real) \<ge> 100 \<longrightarrow> e_status r = ''completed'')"
    .
  from bspec [OF this new] new_id
  have upd: "e_progress (enrollments (store (update_progress 1 50 db_reenrolled)) ! 0) = 50
           \<and> e_status (enrollments (store (update_progress 1 50 db_reenrolled)) ! 0) = ''in_progress''"
    by simp
  from row ident prior ok upd show ?thesis
    by simp
qed

text \<open>
  Claim C5. For a progress below 0 or above 100, \<open>update_progress\<close> fails with the message
  of the range check before any statement is sent to the store: it returns \<^verbatim>\<open>False\<close> and
  the store, with the progress and status of every enrollment, is unchanged.
\<close>

theorem update_progress_out_of_range:
  assumes "p < 0 \<or> 100 < p"
  shows "update_progress eid p db
           = \<lparr>returned = False, printed = [InvalidProgressValue], store = db\<rparr>"
  using assms by (auto simp: update_progress_def validate_progress_def)

theorem update_progress_out_of_range_witness:
  "((-1::real) < 0 \<or> (100::real) < -1)
   \<and> update_progress 1 (-1) db_full
        = \<lparr>returned = False, printed = [InvalidProgressValue], store = db_full\<rparr>
   \<and> ((101::real) < 0 \<or> (100::real) < 101)
   \<and> update_progress 1 101 db_full
        = \<lparr>returned = False, printed = [InvalidProgressValue], store = db_full\<rparr>"
proof -
  have low: "(-1::real) < 0 \<or> (100::real) < -1"
    by simp
  have high: "(101::real) < 0 \<or> (100::real) < 101"
    by simp
  from update_progress_out_of_range [OF low, of 1 db_full]
       update_progress_out_of_range [OF high, of 1 db_full] low high
  show ?thesis
    by blast
qed



section \<open>The capacity bound\<close>

lemma find_distinct_key:
  assumes "distinct (map k xs)" "x \<in> set xs"
  shows "find (\<lambda>y. k y = k x) xs = Some x"
  using assms
proof (induction xs)
  case Nil
  then show ?case by simp
next
  case (Cons a xs)
  show ?case
  proof (cases "a = x")
    case True
    then show ?thesis by simp
  next
    case False
    with Cons.prems have x: "x \<in> set xs" by simp
    then have "k x \<in> set (map k xs)" by simp
    with Cons.prems(1) have "k a \<noteq> k x" by auto
    with Cons.IH x Cons.prems(1) show ?thesis by simp
  qed
qed

lemma length_filter_map_le:
  assumes "\<forall>x \<in> set xs. Q (f x) \<longrightarrow> Q x"
  shows "length (filter Q (map f xs)) \<le> length (filter Q xs)"
  using assms by (induction xs) simp_all

lemma enroll_student_courses:
  "courses (store (enroll_student now1 now2 sid cid db)) = courses db"
  by (simp add: enroll_student_def insert_enrollment_def Let_def)

lemma enroll_student_returned_seats:
  "returned (enroll_student now1 now2 sid cid db) \<noteq> None \<Longrightarrow> 0 < get_available_seats cid db"
  by (simp add: enroll_student_def Let_def split: if_splits)

lemma enroll_student_count_active:
  "count_active k (store (enroll_student now1 now2 sid cid db))
     = count_active k db + (if returned (enroll_student now1 now2 sid cid db) \<noteq> None \<and> k = cid then 1 else 0)"
  by (simp add: enroll_student_def insert_enrollment_def Let_def count_active_def ENROLLED_def)

lemma update_progress_courses:
  "courses (store (update_progress eid p db)) = courses db"
  by (simp add: update_progress_def update_enrollment_def Let_def)

lemma count_active_update_le:
  assumes "100 \<le> p \<or> (\<forall>e \<in> set (enrollments db). e_id e = eid \<longrightarrow>
                          e_status e = ''enrolled'' \<or> e_status e = ''in_progress'')"
  shows "count_active k (store (update_progress eid p db)) \<le> count_active k db"
proof (cases "returned (update_progress eid p db)")
  case False
  then show ?thesis
    by (simp add: count_active_def update_progress_enrollments [of eid p db])
next
  case True
  let ?st = "if p \<ge> 100 then COMPLETED else IN_PROGRESS"
  let ?f = "\<lambda>r. if e_id r = eid then r\<lparr>e_progress := p, e_status := ?st\<rparr> else r"
  let ?Q = "\<lambda>e. e_course_id e = k \<and> e_status e \<in> set [''enrolled'', ''in_progress'']"
  have "\<forall>x \<in> set (enrollments db). ?Q (?f x) \<longrightarrow> ?Q x"
  proof (intro ballI impI)
    fix x
    assume x: "x \<in> set (enrollments db)" and q: "?Q (?f x)"
    show "?Q x"
    proof (cases "e_id x = eid")
      case False
      with q show ?thesis by simp
    next
      case same: True
      show ?thesis
      proof (cases "100 \<le> p")
        case True
        with same q show ?thesis by (simp add: COMPLETED_def)
      next
        case False
        with assms x same have "e_status x = ''enrolled'' \<or> e_status x = ''in_progress''"
          by blast
        moreover from same q have "e_course_id x = k" by simp
        ultimately show ?thesis by auto
      qed
    qed
  qed
  then have "length (filter ?Q (map ?f (enrollments db))) \<le> length (filter ?Q (enrollments db))"
    by (rule length_filter_map_le)
  with True show ?thesis
    by (simp add: count_active_def update_progress_enrollments [of eid p db])
qed

text \<open>
  Claim C1, amended. In a store whose course ids are distinct and in which every course has
  at most \<open>max_students\<close> enrollments of status \<open>enrolled\<close> or \<open>in_progress\<close>, the bound
  still holds after \<open>enroll_student\<close>; and it still holds after \<open>update_progress\<close> when
  the progress is at least 100 or when every enrollment of the updated id had the status
  \<open>enrolled\<close> or \<open>in_progress\<close> before.
\<close>

theorem capacity_respected_preserved:
  "(distinct (map c_id (courses db)) \<and> capacity_respected db
      \<longrightarrow> capacity_respected (store (enroll_student now1 now2 student_id course_id db)))
   \<and> (capacity_respected db
        \<and> (100 \<le> p \<or> (\<forall>e \<in> set (enrollments db). e_id e = eid \<longrightarrow>
                          e_status e = ''enrolled'' \<or> e_status e = ''in_progress''))
      \<longrightarrow> capacity_respected (store (update_progress eid p db)))"
proof (intro conjI impI)
  assume a: "distinct (map c_id (courses db)) \<and> capacity_respected db"
  let ?out = "enroll_student now1 now2 student_id course_id db"
  show "capacity_respected (store ?out)"
    unfolding capacity_respected_def enroll_student_courses
  proof
    fix c
    assume c: "c \<in> set (courses db)"
    with a have bound: "count_active (c_id c) db \<le> c_max_students c"
      by (simp add: capacity_respected_def)
    have eq: "count_active (c_id c) (store ?out)
                = count_active (c_id c) db
                  + (if returned ?out \<noteq> None \<and> c_id c = course_id then 1 else 0)"
      by (rule enroll_student_count_active)
    show "count_active (c_id c) (store ?out) \<le> c_max_students c"
    proof (cases "returned ?out \<noteq> None \<and> c_id c = course_id")
      case False
      then have "(if returned ?out \<noteq> None \<and> c_id c = course_id then 1 else 0) = (0::int)"
        by (rule if_not_P)
      with eq bound show ?thesis
        by linarith
    next
      case True
      then have seats: "0 < get_available_seats course_id db"
        using enroll_student_returned_seats by blast
      from a c True have "get_course course_id db = Some c"
        unfolding get_course_def using find_distinct_key [of c_id "courses db" c] by simp
      with seats have "count_active course_id db + 1 \<le> c_max_students c"
        by (simp add: get_available_seats_def Let_def)
      moreover from True
      have "(if returned ?out \<noteq> None \<and> c_id c = course_id then 1 else 0) = (1::int)"
        by (rule if_P)
      moreover from True have "c_id c = course_id" ..
      ultimately show ?thesis
        using eq by simp
    qed
  qed
next
  assume a: "capacity_respected db
        \<and> (100 \<le> p \<or> (\<forall>e \<in> set (enrollments db). e_id e = eid \<longrightarrow>
                          e_status e = ''enrolled'' \<or> e_status e = ''in_progress''))"
  show "capacity_respected (store (update_progress eid p db))"
    unfolding capacity_respected_def update_progress_courses
  proof
    fix c
    assume c: "c \<in> set (courses db)"
    with a have "count_active (c_id c) db \<le> c_max_students c"
      by (simp add: capacity_respected_def)
    moreover from a have "count_active (c_id c) (store (update_progress eid p db)) \<le> count_active (c_id c) db"
      by (intro count_active_update_le) simp
    ultimately show "count_active (c_id c) (store (update_progress eid p db)) \<le> c_max_students c"
      by simp
  qed
qed

theorem capacity_respected_preserved_witness:
  "distinct (map c_id (courses db_start)) \<and> capacity_respected db_start
   \<and> capacity_respected (store (enroll_student 100 100 1 1 db_start))
   \<and> returned (enroll_student 100 100 1 1 db_start) = Some 1
   \<and> capacity_respected db_full
   \<and> e_status (enrollments db_full ! 0) = ''enrolled''
   \<and> capacity_respected (store (update_progress 1 40 db_full))
   \<and> returned (update_progress 1 40 db_full) = True"
proof -
  have h1: "distinct (map c_id (courses db_start)) \<and> capacity_respected db_start"
    by code_simp
  have h2: "capacity_respected db_full
        \<and> (100 \<le> (40::real) \<or> (\<forall>e \<in> set (enrollments db_full). e_id e = 1 \<longrightarrow>
                          e_status e = ''enrolled'' \<or> e_status e = ''in_progress''))"
    by code_simp
  have r: "returned (enroll_student 100 100 1 1 db_start) = Some 1"
    "e_status (enrollments db_full ! 0) = ''enrolled''"
    "returned (update_progress 1 40 db_full) = True"
    by code_simp+
  from capacity_respected_preserved [of db_start 100 100 1 1 40 1, THEN conjunct1] h1
  have c1: "capacity_respected (store (enroll_student 100 100 1 1 db_start))"
    by (rule mp)
  from capacity_respected_preserved [of db_full 100 100 1 1 40 1, THEN conjunct2] h2
  have c2: "capacity_respected (store (update_progress 1 40 db_full))"
    by (rule mp)
  from h1 h2 r c1 c2 show ?thesis
    by simp
qed

text \<open>
  The bound is not kept by every \<open>update_progress\<close>. From \<open>db_start\<close>: student 1 takes the
  single seat of course 1, the enrollment is completed at 100 percent, student 2 takes the
  freed seat, and setting the progress of enrollment 1 back to 50 makes it \<open>in_progress\<close>
  again, without any check of the capacity: course 1 then has two active enrollments for
  one seat.
\<close>

theorem capacity_exceeded_after_update_progress:
  "returned (enroll_student 100 100 1 1 db_start) = Some 1
   \<and> returned (update_progress 1 100 db_full) = True
   \<and> returned (enroll_student 200 200 2 1 db_completed) = Some 2
   \<and> capacity_respected db_reenrolled
   \<and> returned (update_progress 1 50 db_reenrolled) = True
   \<and> get_course 1 (store (update_progress 1 50 db_reenrolled)) = Some (example_course 1 ''Python Basics'' 1)
   \<and> c_max_students (example_course 1 ''Python Basics'' 1) = 1
   \<and> count_active 1 (store (update_progress 1 50 db_reenrolled)) = 2
   \<and> \<not> capacity_respected (store (update_progress 1 50 db_reenrolled))"
  by code_simp

section \<open>Certificates\<close>

lemma filter_distinct_key:
  assumes "distinct (map k xs)" "x \<in> set xs"
  shows "filter (\<lambda>y. k y = k x) xs = [x]"
  using assms
proof (induction xs)
  case Nil
  then show ?case by simp
next
  case (Cons a xs)
  show ?case
  proof (cases "a = x")
    case True
    with Cons.prems(1) have "k x \<notin> set (map k xs)" by simp
    then have "\<forall>y \<in> set xs. k y \<noteq> k x" by (simp add: image_iff) metis
    then have "filter (\<lambda>y. k y = k x) xs = []" by (simp add: filter_empty_conv)
    with True show ?thesis by simp
  next
    case False
    with Cons.prems have x: "x \<in> set xs" by simp
    then have "k x \<in> set (map k xs)" by simp
    with Cons.prems(1) have "k a \<noteq> k x" by auto
    with Cons.IH x Cons.prems(1) show ?thesis by simp
  qed
qed

lemma generate_certificate_not_completed:
  assumes "\<forall>e \<in> set (enrollments db). e_id e = eid \<longrightarrow> e_status e \<noteq> ''completed''"
  shows "generate_certificate ts tok now eid issuer db
           = \<lparr>returned = None, printed = [EnrollmentNotCompletedOrNotFound], store = db\<rparr>"
proof -
  have "find (\<lambda>e. e_id e = eid \<and> e_status e = ''completed'') (enrollments db) = None"
    unfolding find_None_iff using assms by blast
  then show ?thesis
    by (simp add: generate_certificate_def)
qed

lemma find_completed:
  assumes "e \<in> set (enrollments db)" "e_id e = eid" "e_status e = ''completed''"
  shows "\<exists>r. find (\<lambda>e. e_id e = eid \<and> e_status e = ''completed'') (enrollments db) = Some r"
proof (cases "find (\<lambda>e. e_id e = eid \<and> e_status e = ''completed'') (enrollments db)")
  case None
  with assms show ?thesis
    unfolding find_None_iff by blast
next
  case (Some r)
  then show ?thesis by blast
qed

lemma generate_certificate_fresh:
  assumes "e \<in> set (enrollments db)" "e_id e = eid" "e_status e = ''completed''"
    and num: "\<forall>x \<in> set (certifications db). certificate_number x \<noteq> format_cert_number eid ts"
    and code: "\<forall>x \<in> set (certifications db). verification_code x \<noteq> upper tok"
  shows "returned (generate_certificate ts tok now eid issuer db) = Some (format_cert_number eid ts)"
    and "certifications (store (generate_certificate ts tok now eid issuer db))
           = certifications db @ [issued_certificate ts tok now eid issuer db]"
    and "enrollments (store (generate_certificate ts tok now eid issuer db)) = enrollments db"
    and "students (store (generate_certificate ts tok now eid issuer db)) = students db"
    and "courses (store (generate_certificate ts tok now eid issuer db)) = courses db"
proof -
  obtain r where r: "find (\<lambda>e. e_id e = eid \<and> e_status e = ''completed'') (enrollments db) = Some r"
    using find_completed [OF assms(1-3)] by blast
  have n: "\<not> (\<exists>c \<in> set (certifications db). certificate_number c = format_cert_number eid ts)"
    using num by blast
  have c: "\<not> (\<exists>c \<in> set (certifications db). verification_code c = upper tok)"
    using code by blast
  have ins: "insert_certification eid (format_cert_number eid ts) now (upper tok) issuer db
           = Inr (next_id (map cert_id (certifications db)),
                  db\<lparr>certifications := certifications db @ [issued_certificate ts tok now eid issuer db]\<rparr>)"
    unfolding insert_certification_def issued_certificate_def Let_def
    by (simp only: n c if_False)
  show "returned (generate_certificate ts tok now eid issuer db) = Some (format_cert_number eid ts)"
    by (simp add: generate_certificate_def r ins Let_def)
  show "certifications (store (generate_certificate ts tok now eid issuer db))
           = certifications db @ [issued_certificate ts tok now eid issuer db]"
    by (simp add: generate_certificate_def r ins Let_def)
  show "enrollments (store (generate_certificate ts tok now eid issuer db)) = enrollments db"
    by (simp add: generate_certificate_def r ins Let_def)
  show "students (store (generate_certificate ts tok now eid issuer db)) = students db"
    by (simp add: generate_certificate_def r ins Let_def)
  show "courses (store (generate_certificate ts tok now eid issuer db)) = courses db"
    by (simp add: generate_certificate_def r ins Let_def)
qed

lemma verify_certificate_issued:
  assumes keys: "primary_keys_distinct db"
    and e: "e \<in> set (enrollments db)" "e_id e = eid" "e_status e = ''completed''"
    and s: "s \<in> set (students db)" "s_id s = e_student_id e"
    and c: "c \<in> set (courses db)" "c_id c = e_course_id e"
    and num: "\<forall>x \<in> set (certifications db). certificate_number x \<noteq> format_cert_number eid ts"
    and code: "\<forall>x \<in> set (certifications db). verification_code x \<noteq> upper tok"
  shows "verify_certificate (upper tok) (store (generate_certificate ts tok now eid issuer db))
           = Some \<lparr>certificate = issued_certificate ts tok now eid issuer db,
                   student_name = s_name s, course_title = c_title c\<rparr>"
proof -
  let ?db' = "store (generate_certificate ts tok now eid issuer db)"
  let ?new = "issued_certificate ts tok now eid issuer db"
  note fresh = generate_certificate_fresh [OF e num code, of now issuer]
  have old: "filter (\<lambda>cert. verification_code cert = upper tok) (certifications db) = []"
    using code by (simp add: filter_empty_conv)
  have certs: "filter (\<lambda>cert. verification_code cert = upper tok) (certifications ?db') = [?new]"
    unfolding fresh(2) by (simp add: old issued_certificate_def)
  have new_eid: "cert_enrollment_id ?new = e_id e"
    by (simp add: issued_certificate_def e(2))
  have es: "filter (\<lambda>r. e_id r = cert_enrollment_id ?new) (enrollments ?db') = [e]"
    unfolding fresh(3) new_eid
    using keys e(1) by (intro filter_distinct_key) (simp_all add: primary_keys_distinct_def)
  have ss: "filter (\<lambda>r. s_id r = e_student_id e) (students ?db') = [s]"
    unfolding fresh(4) s(2) [symmetric]
    using keys s(1) by (intro filter_distinct_key) (simp_all add: primary_keys_distinct_def)
  have cs: "filter (\<lambda>r. c_id r = e_course_id e) (courses ?db') = [c]"
    unfolding fresh(5) c(2) [symmetric]
    using keys c(1) by (intro filter_distinct_key) (simp_all add: primary_keys_distinct_def)
  have "verify_join (upper tok) ?db'
          = [\<lparr>certificate = ?new, student_name = s_name s, course_title = c_title c\<rparr>]"
    unfolding verify_join_def certs by (simp add: es ss cs)
  then show ?thesis
    by (simp add: verify_certificate_def)
qed

text \<open>
  Claim C6, amended. When no enrollment of the given id has the status \<open>completed\<close>,
  \<open>generate_certificate\<close> fails with the message that the enrollment is not completed or not
  found, and writes nothing. For an enrollment of status \<open>completed\<close> whose student and
  course rows exist, in a store with distinct primary keys, the issuance succeeds whenever
  neither the generated certificate number nor the generated verification code is already
  in the certifications table, and \<open>verify_certificate\<close> on the generated code then returns
  the issued certificate with the name of the enrollment's student and the title of its
  course.
\<close>

theorem certificate_issue_and_verify:
  "((\<forall>r \<in> set (enrollments db). e_id r = eid \<longrightarrow> e_status r \<noteq> ''completed'')
      \<longrightarrow> generate_certificate ts tok now eid issuer db
            = \<lparr>returned = None, printed = [EnrollmentNotCompletedOrNotFound], store = db\<rparr>)
   \<and> (primary_keys_distinct db
        \<and> e \<in> set (enrollments db) \<and> e_id e = eid \<and> e_status e = ''completed''
        \<and> s \<in> set (students db) \<and> s_id s = e_student_id e
        \<and> c \<in> set (courses db) \<and> c_id c = e_course_id e
        \<and> (\<forall>x \<in> set (certifications db).
              certificate_number x \<noteq> format_cert_number eid ts \<and> verification_code x \<noteq> upper tok)
      \<longrightarrow> returned (generate_certificate ts tok now eid issuer db) = Some (format_cert_number eid ts)
          \<and> verify_certificate (upper tok) (store (generate_certificate ts tok now eid issuer db))
              = Some \<lparr>certificate = issued_certificate ts tok now eid issuer db,
                      student_name = s_name s, course_title = c_title c\<rparr>)"
proof (intro conjI impI)
  assume "\<forall>r \<in> set (enrollments db). e_id r = eid \<longrightarrow> e_status r \<noteq> ''completed''"
  then show "generate_certificate ts tok now eid issuer db
            = \<lparr>returned = None, printed = [EnrollmentNotCompletedOrNotFound], store = db\<rparr>"
    by (rule generate_certificate_not_completed)
next
  assume a: "primary_keys_distinct db
        \<and> e \<in> set (enrollments db) \<and> e_id e = eid \<and> e_status e = ''completed''
        \<and> s \<in> set (students db) \<and> s_id s = e_student_id e
        \<and> c \<in> set (courses db) \<and> c_id c = e_course_id e
        \<and> (\<forall>x \<in> set (certifications db).
              certificate_number x \<noteq> format_cert_number eid ts \<and> verification_code x \<noteq> upper tok)"
  then have num: "\<forall>x \<in> set (certifications db). certificate_number x \<noteq> format_cert_number eid ts"
    and code: "\<forall>x \<in> set (certifications db). verification_code x \<noteq> upper tok"
    by blast+
  from a have e: "e \<in> set (enrollments db)" "e_id e = eid" "e_status e = ''completed''"
    by blast+
  show "returned (generate_certificate ts tok now eid issuer db) = Some (format_cert_number eid ts)"
    by (rule generate_certificate_fresh(1) [OF e num code])
next
  assume a: "primary_keys_distinct db
        \<and> e \<in> set (enrollments db) \<and> e_id e = eid \<and> e_status e = ''completed''
        \<and> s \<in> set (students db) \<and> s_id s = e_student_id e
        \<and> c \<in> set (courses db) \<and> c_id c = e_course_id e
        \<and> (\<forall>x \<in> set (certifications db).
              certificate_number x \<noteq> format_cert_number eid ts \<and> verification_code x \<noteq> upper tok)"
  then have num: "\<forall>x \<in> set (certifications db). certificate_number x \<noteq> format_cert_number eid ts"
    and code: "\<forall>x \<in> set (certifications db). verification_code x \<noteq> upper tok"
    by blast+
  from a have e: "e \<in> set (enrollments db)" "e_id e = eid" "e_status e = ''completed''"
    and s: "s \<in> set (students db)" "s_id s = e_student_id e"
    and c: "c \<in> set (courses db)" "c_id c = e_course_id e"
    and keys: "primary_keys_distinct db"
    by blast+
  show "verify_certificate (upper tok) (store (generate_certificate ts tok now eid issuer db))
              = Some \<lparr>certificate = issued_certificate ts tok now eid issuer db,
                      student_name = s_name s, course_title = c_title c\<rparr>"
    by (rule verify_certificate_issued [OF keys e s c num code])
qed

theorem certificate_issue_and_verify_witness:
  "e_status (enrollments db_full ! 0) = ''enrolled''
   \<and> generate_certificate ''20260128120000'' ''0123456789abcdef'' 500 1 ''Training System'' db_full
        = \<lparr>returned = None, printed = [EnrollmentNotCompletedOrNotFound], store = db_full\<rparr>
   \<and> e_status (enrollments db_completed ! 0) = ''completed''
   \<and> returned (generate_certificate ''20260128120000'' ''0123456789abcdef'' 500 1 ''Training System'' db_completed)
        = Some ''CERT-1-20260128120000''
   \<and> map_option (\<lambda>d. (verification_code (certificate d), student_name d, course_title d))
        (verify_certificate ''0123456789ABCDEF'' db_certified)
        = Some (''0123456789ABCDEF'', ''Ana Souza'', ''Python Basics'')"
proof -
  let ?e = "enrollments db_completed ! 0"
  let ?s = "example_student 1 ''Ana Souza'' ''ana@example.com''"
  let ?c = "example_course 1 ''Python Basics'' 1"
  have h1: "\<forall>r \<in> set (enrollments db_full). e_id r = 1 \<longrightarrow> e_status r \<noteq> ''completed''"
    by code_simp
  have st: "e_status (enrollments db_full ! 0) = ''enrolled''"
    by code_simp
  have h2: "primary_keys_distinct db_completed
        \<and> ?e \<in> set (enrollments db_completed) \<and> e_id ?e = 1 \<and> e_status ?e = ''completed''
        \<and> ?s \<in> set (students db_completed) \<and> s_id ?s = e_student_id ?e
        \<and> ?c \<in> set (courses db_completed) \<and> c_id ?c = e_course_id ?e
        \<and> (\<forall>x \<in> set (certifications db_completed).
              certificate_number x \<noteq> format_cert_number 1 ''20260128120000''
              \<and> verification_code x \<noteq> upper ''0123456789abcdef'')"
    by code_simp
  have up: "upper ''0123456789abcdef'' = ''0123456789ABCDEF''"
    by code_simp
  have num: "format_cert_number 1 ''20260128120000'' = ''CERT-1-20260128120000''"
    by code_simp
  have names: "s_name ?s = ''Ana Souza''" "c_title ?c = ''Python Basics''"
    by (simp_all add: example_student_def example_course_def)
  from certificate_issue_and_verify
         [of db_full 1 "''20260128120000''" "''0123456789abcdef''" 500 "''Training System''",
          THEN conjunct1] h1
  have a: "generate_certificate ''20260128120000'' ''0123456789abcdef'' 500 1 ''Training System'' db_full
        = \<lparr>returned = None, printed = [EnrollmentNotCompletedOrNotFound], store = db_full\<rparr>"
    by (rule mp)
  from certificate_issue_and_verify
         [of db_completed 1 "''20260128120000''" "''0123456789abcdef''" 500 "''Training System''" ?e ?s ?c,
          THEN conjunct2] h2
  have b: "returned (generate_certificate ''20260128120000'' ''0123456789abcdef'' 500 1 ''Training System'' db_completed)
             = Some (format_cert_number 1 ''20260128120000'')
          \<and> verify_certificate (upper ''0123456789abcdef'')
               (store (generate_certificate ''20260128120000'' ''0123456789abcdef'' 500 1 ''Training System'' db_completed))
              = Some \<lparr>certificate = issued_certificate ''20260128120000'' ''0123456789abcdef'' 500 1 ''Training System'' db_completed,
                      student_name = s_name ?s, course_title = c_title ?c\<rparr>"
    by (rule mp)
  from b have b1: "returned (generate_certificate ''20260128120000'' ''0123456789abcdef'' 500 1 ''Training System'' db_completed)
        = Some ''CERT-1-20260128120000''"
    unfolding num by (rule conjunct1)
  from b have "verify_certificate ''0123456789ABCDEF'' db_certified
              = Some \<lparr>certificate = issued_certificate ''20260128120000'' ''0123456789abcdef'' 500 1 ''Training System'' db_completed,
                      student_name = ''Ana Souza'', course_title = ''Python Basics''\<rparr>"
    unfolding up names db_certified_def by (rule conjunct2)
  then have b2: "map_option (\<lambda>d. (verification_code (certificate d), student_name d, course_title d))
        (verify_certificate ''0123456789ABCDEF'' db_certified)
        = Some (''0123456789ABCDEF'', ''Ana Souza'', ''Python Basics'')"
    by (simp add: issued_certificate_def up)
  have fin: "e_status (enrollments db_completed ! 0) = ''completed''"
    by code_simp
  from st a fin b1 b2 show ?thesis
    by (intro conjI)
qed

text \<open>
  The issuance for a completed enrollment can fail, and a code that was issued may not
  resolve. In \<open>db_certified\<close> enrollment 1 is completed and has a certificate stamped
  \<open>20260128120000\<close>; a second request within the same second generates the same
  certificate number and returns \<^verbatim>\<open>None\<close>. In \<open>db_unknown_student\<close> the completed
  enrollment 2 belongs to the student id 99, which has no row; the certificate is issued
  but the join of \<open>verify_certificate\<close> is empty.
\<close>

theorem certificate_issue_fails_or_does_not_resolve:
  "e_id (enrollments db_certified ! 0) = 1
   \<and> e_status (enrollments db_certified ! 0) = ''completed''
   \<and> returned (generate_certificate ''20260128120000'' ''fedcba9876543210'' 501 1 ''Training System'' db_certified)
        = None
   \<and> e_id (enrollments db_unknown_student ! 1) = 2
   \<and> e_status (enrollments db_unknown_student ! 1) = ''completed''
   \<and> returned (generate_certificate ''20260128120500'' ''00ff00ff00ff00ff'' 700 2 ''Training System'' db_unknown_student)
        = Some ''CERT-2-20260128120500''
   \<and> verify_certificate ''00FF00FF00FF00FF''
        (store (generate_certificate ''20260128120500'' ''00ff00ff00ff00ff'' 700 2 ''Training System'' db_unknown_student))
        = None"
  by code_simp

text \<open>
  Claim C7, amended. When the certificate number or the verification code that
  \<open>generate_certificate\<close> generates for a completed enrollment already exists in the
  certifications table, the operation fails on this first collision: the insert violates a
  \<^verbatim>\<open>UNIQUE\<close> constraint, the database error is printed, \<^verbatim>\<open>None\<close> is returned and the
  store is unchanged. No second code is generated and nothing is retried.
\<close>

theorem generate_certificate_collision:
  assumes "e \<in> set (enrollments db)" "e_id e = eid" "e_status e = ''completed''"
    and "x \<in> set (certifications db)"
    and "certificate_number x = format_cert_number eid ts \<or> verification_code x = upper tok"
  shows "returned (generate_certificate ts tok now eid issuer db) = None
       \<and> store (generate_certificate ts tok now eid issuer db) = db
       \<and> (printed (generate_certificate ts tok now eid issuer db)
             = [DatabaseError (IntegrityError ''UNIQUE constraint failed: certifications.certificate_number'')]
          \<or> printed (generate_certificate ts tok now eid issuer db)
             = [DatabaseError (IntegrityError ''UNIQUE constraint failed: certifications.verification_code'')])"
proof -
  obtain r where r: "find (\<lambda>e. e_id e = eid \<and> e_status e = ''completed'') (enrollments db) = Some r"
    using find_completed [OF assms(1-3)] by blast
  show ?thesis
  proof (cases "\<exists>c \<in> set (certifications db). verification_code c = upper tok")
    case True
    then have "insert_certification eid (format_cert_number eid ts) now (upper tok) issuer db
                 = Inl (IntegrityError ''UNIQUE constraint failed: certifications.verification_code'')"
      unfolding insert_certification_def by (rule if_P)
    then show ?thesis
      by (simp add: generate_certificate_def r Let_def)
  next
    case False
    with assms(4,5) have "\<exists>c \<in> set (certifications db). certificate_number c = format_cert_number eid ts"
      by blast
    with False have "insert_certification eid (format_cert_number eid ts) now (upper tok) issuer db
                 = Inl (IntegrityError ''UNIQUE constraint failed: certifications.certificate_number'')"
      unfolding insert_certification_def by (simp only: if_False if_True)
    then show ?thesis
      by (simp add: generate_certificate_def r Let_def)
  qed
qed

theorem generate_certificate_collision_witness:
  "enrollments db_certified ! 0 \<in> set (enrollments db_certified)
   \<and> e_id (enrollments db_certified ! 0) = 1
   \<and> e_status (enrollments db_certified ! 0) = ''completed''
   \<and> certifications db_certified ! 0 \<in> set (certifications db_certified)
   \<and> verification_code (certifications db_certified ! 0) = upper ''0123456789abcdef''
   \<and> returned (generate_certificate ''20260128120001'' ''0123456789abcdef'' 501 1 ''Training System'' db_certified)
        = None
   \<and> store (generate_certificate ''20260128120001'' ''0123456789abcdef'' 501 1 ''Training System'' db_certified)
        = db_certified"
proof -
  have e: "enrollments db_certified ! 0 \<in> set (enrollments db_certified)"
    "e_id (enrollments db_certified ! 0) = 1"
    "e_status (enrollments db_certified ! 0) = ''completed''"
    by code_simp+
  have x: "certifications db_certified ! 0 \<in> set (certifications db_certified)"
    by code_simp
  have code: "verification_code (certifications db_certified ! 0) = upper ''0123456789abcdef''"
    by code_simp
  then have clash: "certificate_number (certifications db_certified ! 0) = format_cert_number 1 ''20260128120001''
               \<or> verification_code (certifications db_certified ! 0) = upper ''0123456789abcdef''"
    by (rule disjI2)
  note inst = generate_certificate_collision [OF e x clash, of 501 "''Training System''"]
  from e x code inst [THEN conjunct1] inst [THEN conjunct2, THEN conjunct1] show ?thesis
    by (intro conjI)
qed

text \<open>
  No retry takes place: in \<open>db_certified\<close> the code \<open>0123456789ABCDEF\<close> is taken; a request
  one second later that draws the same token fails at once and leaves the store as it was,
  although the same request with another token succeeds.
\<close>

theorem generate_certificate_no_retry:
  "e_id (enrollments db_certified ! 0) = 1
   \<and> e_status (enrollments db_certified ! 0) = ''completed''
   \<and> verification_code (certifications db_certified ! 0) = upper ''0123456789abcdef''
   \<and> generate_certificate ''20260128120001'' ''0123456789abcdef'' 501 1 ''Training System'' db_certified
        = \<lparr>returned = None,
           printed = [DatabaseError (IntegrityError ''UNIQUE constraint failed: certifications.verification_code'')],
           store = db_certified\<rparr>
   \<and> returned (generate_certificate ''20260128120001'' ''fedcba9876543210'' 501 1 ''Training System'' db_certified)
        = Some ''CERT-1-20260128120001''"
  by code_simp

end
